theory Spec2Isabelle
  imports Complex_Main "HOL-Library.Signed_Division" "HOL-Library.Sublist"
begin

section \<open>The pace line model: numbers, controls and the time-to-position function\<close>

text \<open>
  The source is one React component, \<^verbatim>\<open>PaceLineModel\<close>, in
  \<^verbatim>\<open>portable_pace_line_interactive_model_react.jsx\<close>. Its logic is the closure
  \<^verbatim>\<open>timeToMeters\<close> and the derived values \<^verbatim>\<open>secPerM\<close>, \<^verbatim>\<open>markerMs\<close>,
  \<^verbatim>\<open>headIndex\<close> and \<^verbatim>\<open>tailMeters\<close>; all of them read the component's controls.

  Numbers. The controls and the elapsed time are finite numbers; they are modelled as
  \<^typ>\<open>real\<close> (\<^verbatim>\<open>ledsPerM\<close> and \<^verbatim>\<open>tailLen\<close>, which the component sets with
  \<^verbatim>\<open>parseInt\<close>, as \<^typ>\<open>int\<close>), and sums, differences and products of finite numbers
  are the exact ones: the rounding of IEEE doubles and overflow are not modelled. A
  JavaScript division never throws: a zero divisor gives \<^verbatim>\<open>NaN\<close> or an infinity.
  Every value that can come from a division whose divisor is not guarded is therefore a
  \<open>jsnum\<close>, with the arithmetic and the comparisons of JavaScript on the non-finite
  values. The sign of a zero is not modelled (\<^verbatim>\<open>-0\<close> is \<^verbatim>\<open>0\<close>).

  The theorems below are those whose statement does not depend on that idealisation:
  they relate the branch taken by the program to its result, or evaluate it where every
  intermediate value is exact in binary64. Properties that rounding, overflow or
  underflow decide on the program (exact periodicity, exact reversal symmetry, strict
  monotonicity of the moving branch, boundedness at the extremes of the number range)
  are not stated over this model.
\<close>

datatype jsnum = Fin real | PInf | NInf | NaN

fun js_sub :: "jsnum \<Rightarrow> jsnum \<Rightarrow> jsnum" where
  "js_sub NaN _ = NaN"
| "js_sub _ NaN = NaN"
| "js_sub (Fin a) (Fin b) = Fin (a - b)"
| "js_sub (Fin a) PInf = NInf"
| "js_sub (Fin a) NInf = PInf"
| "js_sub PInf PInf = NaN"
| "js_sub NInf NInf = NaN"
| "js_sub PInf _ = PInf"
| "js_sub NInf _ = NInf"

fun js_mul :: "jsnum \<Rightarrow> jsnum \<Rightarrow> jsnum" where
  "js_mul NaN _ = NaN"
| "js_mul _ NaN = NaN"
| "js_mul (Fin a) (Fin b) = Fin (a * b)"
| "js_mul (Fin a) PInf = (if a = 0 then NaN else if 0 < a then PInf else NInf)"
| "js_mul (Fin a) NInf = (if a = 0 then NaN else if 0 < a then NInf else PInf)"
| "js_mul PInf (Fin b) = (if b = 0 then NaN else if 0 < b then PInf else NInf)"
| "js_mul NInf (Fin b) = (if b = 0 then NaN else if 0 < b then NInf else PInf)"
| "js_mul PInf PInf = PInf"
| "js_mul PInf NInf = NInf"
| "js_mul NInf PInf = NInf"
| "js_mul NInf NInf = PInf"

fun js_div :: "jsnum \<Rightarrow> jsnum \<Rightarrow> jsnum" where
  "js_div NaN _ = NaN"
| "js_div _ NaN = NaN"
| "js_div (Fin a) (Fin b) =
     (if b \<noteq> 0 then Fin (a / b)
      else if a = 0 then NaN else if 0 < a then PInf else NInf)"
| "js_div (Fin a) _ = Fin 0"
| "js_div PInf (Fin b) = (if 0 \<le> b then PInf else NInf)"
| "js_div NInf (Fin b) = (if 0 \<le> b then NInf else PInf)"
| "js_div _ _ = NaN"

text \<open>\<^verbatim>\<open>a <= b\<close>: false as soon as one side is \<^verbatim>\<open>NaN\<close>.\<close>

fun js_le :: "jsnum \<Rightarrow> jsnum \<Rightarrow> bool" where
  "js_le NaN _ = False"
| "js_le _ NaN = False"
| "js_le (Fin a) (Fin b) = (a \<le> b)"
| "js_le NInf _ = True"
| "js_le _ PInf = True"
| "js_le _ _ = False"

text \<open>\<^verbatim>\<open>a >= b\<close>.\<close>

definition js_ge :: "jsnum \<Rightarrow> jsnum \<Rightarrow> bool" where
  "js_ge a b = js_le b a"

text \<open>\<^verbatim>\<open>Math.min\<close> and \<^verbatim>\<open>Math.max\<close>: \<^verbatim>\<open>NaN\<close> as soon as one argument is.\<close>

definition js_min :: "jsnum \<Rightarrow> jsnum \<Rightarrow> jsnum" where
  "js_min a b = (if a = NaN \<or> b = NaN then NaN else if js_le a b then a else b)"

definition js_max :: "jsnum \<Rightarrow> jsnum \<Rightarrow> jsnum" where
  "js_max a b = (if a = NaN \<or> b = NaN then NaN else if js_le a b then b else a)"

text \<open>\<^verbatim>\<open>Math.round\<close>: the nearest integer, a half rounded up.\<close>

fun js_round :: "jsnum \<Rightarrow> jsnum" where
  "js_round (Fin a) = Fin (of_int \<lfloor>a + 1 / 2\<rfloor>)"
| "js_round v = v"

subsection \<open>The controls\<close>

datatype mode = Loop | PingPong

text \<open>
  The state of the component that the model reads: \<^verbatim>\<open>poolLen\<close>, \<^verbatim>\<open>secPer50\<close>,
  \<^verbatim>\<open>mode\<close>, \<^verbatim>\<open>turnDwell\<close>, \<^verbatim>\<open>ledsPerM\<close> and \<^verbatim>\<open>tailLen\<close>. The elapsed time
  \<^verbatim>\<open>tVisual\<close> is passed as an argument.
\<close>

record controls =
  poolLen :: real
  secPer50 :: real
  mode :: mode
  turnDwell :: real
  ledsPerM :: int
  tailLen :: int

definition secPerM :: "controls \<Rightarrow> real" where
  "secPerM p = secPer50 p / 50"

subsection \<open>Markers\<close>

definition markerMs :: "controls \<Rightarrow> real list" where
  "markerMs p = filter (\<lambda>m. m \<le> poolLen p) [15, 25, 35, 50]"

subsection \<open>Time to position\<close>

text \<open>
  The local constants of \<^verbatim>\<open>timeToMeters\<close>, \<^verbatim>\<open>travelT\<close>, \<^verbatim>\<open>cycleT\<close>, \<^verbatim>\<open>n\<close> and
  \<^verbatim>\<open>tc\<close>, are functions of the controls and the time. The division \<^verbatim>\<open>t / cycleT\<close> is
  only reached behind the guard \<^verbatim>\<open>cycleT === 0\<close>, so \<open>cycleIndex\<close> and \<open>timeInCycle\<close>
  are the source's \<^verbatim>\<open>n\<close> and \<^verbatim>\<open>tc\<close> where \<open>cycleT p \<noteq> 0\<close>.
\<close>

definition travelT :: "controls \<Rightarrow> real" where
  "travelT p = secPerM p * poolLen p"

definition cycleT :: "controls \<Rightarrow> real" where
  "cycleT p = travelT p + 2 * turnDwell p"

definition cycleIndex :: "controls \<Rightarrow> real \<Rightarrow> int" where
  "cycleIndex p t = \<lfloor>t / cycleT p\<rfloor>"

definition timeInCycle :: "controls \<Rightarrow> real \<Rightarrow> real" where
  "timeInCycle p t = t - of_int (cycleIndex p t) * cycleT p"

text \<open>
  The value of \<^verbatim>\<open>x\<close> after the three-way branch: dwell at the start, dwell at the
  end, moving. The divisor \<^verbatim>\<open>secPerM\<close> is not guarded.
\<close>

definition cyclePos :: "controls \<Rightarrow> real \<Rightarrow> jsnum" where
  "cyclePos p t =
     (let tc = timeInCycle p t in
      if tc < turnDwell p then Fin 0
      else if tc > travelT p + turnDwell p then Fin (poolLen p)
      else js_div (Fin (tc - turnDwell p)) (Fin (secPerM p)))"

text \<open>
  \<^verbatim>\<open>n % 2 === 1\<close> is the remainder of JavaScript, which has the sign of \<^verbatim>\<open>n\<close>: it
  is \<open>smod\<close>, and is \<open>-1\<close> on a negative odd \<^verbatim>\<open>n\<close>.
\<close>

definition timeToMeters :: "controls \<Rightarrow> real \<Rightarrow> jsnum" where
  "timeToMeters p t =
     (if cycleT p = 0 then Fin 0
      else
        let n = cycleIndex p t;
            x = cyclePos p t;
            x = (if mode p = PingPong \<and> n smod 2 = 1 then js_sub (Fin (poolLen p)) x else x)
        in js_max (Fin 0) (js_min (Fin (poolLen p)) x))"

subsection \<open>Head index and tail\<close>

definition headIndex :: "controls \<Rightarrow> real \<Rightarrow> jsnum" where
  "headIndex p t = js_round (js_mul (timeToMeters p t) (Fin (of_int (ledsPerM p))))"

text \<open>The loop of \<^verbatim>\<open>tailMeters\<close>, from the counter \<^verbatim>\<open>k\<close> and the array \<^verbatim>\<open>arr\<close>.\<close>

function tailLoop :: "controls \<Rightarrow> jsnum \<Rightarrow> int \<Rightarrow> jsnum list \<Rightarrow> jsnum list" where
  "tailLoop p h k arr =
     (if k < tailLen p then
        let idx = js_sub h (Fin (of_int k));
            m = js_div idx (Fin (of_int (ledsPerM p)))
        in tailLoop p h (k + 1)
             (if js_ge m (Fin 0) \<and> js_le m (Fin (poolLen p)) then arr @ [m] else arr)
      else arr)"
  by pat_completeness auto

termination
  by (relation "measure (\<lambda>(p, h, k, arr). nat (tailLen p - k))") auto

declare tailLoop.simps [simp del]

definition tailMeters :: "controls \<Rightarrow> real \<Rightarrow> jsnum list" where
  "tailMeters p t = tailLoop p (headIndex p t) 0 []"

section \<open>Properties of the cycle\<close>

lemma travelT_nonneg: "0 \<le> poolLen p \<Longrightarrow> 0 \<le> secPer50 p \<Longrightarrow> 0 \<le> travelT p"
  by (simp add: travelT_def secPerM_def)

lemma cycleT_pos_dwell:
  assumes "0 \<le> poolLen p" and "0 \<le> secPer50 p" and "0 < turnDwell p"
  shows "0 < cycleT p"
  using travelT_nonneg [OF assms(1,2)] assms(3) by (simp add: cycleT_def)

lemma cycleIndex_nonneg:
  assumes "0 < cycleT p" and "0 \<le> t"
  shows "0 \<le> cycleIndex p t"
  using assms by (simp add: cycleIndex_def)

lemma smod_2_eq_1_iff:
  fixes n :: int
  assumes "0 \<le> n"
  shows "n smod 2 = 1 \<longleftrightarrow> odd n"
proof (cases "n = 0")
  case True
  then show ?thesis by (simp add: signed_modulo_int_def)
next
  case False
  with assms have "sgn n = 1" by simp
  then show ?thesis
    using assms by (simp add: signed_modulo_int_def odd_iff_mod_2_eq_one)
qed

lemma even_smod_2:
  fixes n :: int
  assumes "even n"
  shows "n smod 2 \<noteq> 1"
proof -
  from assms have "\<bar>n\<bar> mod 2 = 0" by presburger
  then show ?thesis by (simp add: signed_modulo_int_def)
qed

lemma clamp_inside:
  assumes "0 \<le> x" and "x \<le> L"
  shows "js_max (Fin 0) (js_min (Fin L) (Fin x)) = Fin x"
  using assms by (simp add: js_min_def js_max_def)

lemma timeToMeters_forward:
  assumes "cycleT p \<noteq> 0" and "\<not> (mode p = PingPong \<and> cycleIndex p t smod 2 = 1)"
    and "cyclePos p t = Fin x" and "0 \<le> x" and "x \<le> poolLen p"
  shows "timeToMeters p t = Fin x"
proof -
  have "timeToMeters p t = js_max (Fin 0) (js_min (Fin (poolLen p)) (Fin x))"
    using assms(1-3) by (auto simp add: timeToMeters_def)
  then show ?thesis
    using assms(4,5) by (simp add: clamp_inside)
qed

lemma timeToMeters_reflected:
  assumes "cycleT p \<noteq> 0" and "mode p = PingPong" and "cycleIndex p t smod 2 = 1"
    and "cyclePos p t = Fin x" and "0 \<le> x" and "x \<le> poolLen p"
  shows "timeToMeters p t = Fin (poolLen p - x)"
proof -
  have "timeToMeters p t = js_max (Fin 0) (js_min (Fin (poolLen p)) (Fin (poolLen p - x)))"
    using assms(1-4) by (simp add: timeToMeters_def)
  then show ?thesis
    using assms(5,6) by (simp add: clamp_inside)
qed

lemma cyclePos_start: "timeInCycle p t < turnDwell p \<Longrightarrow> cyclePos p t = Fin 0"
  by (simp add: cyclePos_def)

lemma cyclePos_end:
  assumes "0 \<le> travelT p" and "travelT p + turnDwell p < timeInCycle p t"
  shows "cyclePos p t = Fin (poolLen p)"
  using assms by (simp add: cyclePos_def)

text \<open>
  Where the divisor \<^verbatim>\<open>secPerM\<close> of the moving branch is zero, the dividend is zero
  too, so the quotient is \<^verbatim>\<open>NaN\<close> whatever the sign of the zero; the clamp keeps it.
\<close>

lemma moving_zero_pace:
  assumes "secPerM p = 0"
    and "\<not> timeInCycle p t < turnDwell p" and "\<not> timeInCycle p t > travelT p + turnDwell p"
  shows "timeInCycle p t - turnDwell p = 0"
  using assms by (simp add: travelT_def)

subsection \<open>The tail loop\<close>

lemma in_range_Fin:
  assumes "js_ge m (Fin 0)" and "js_le m (Fin L)"
  shows "\<exists>x. m = Fin x \<and> 0 \<le> x \<and> x \<le> L"
  using assms by (cases m) (simp_all add: js_ge_def)

lemma tailLoop_set:
  "set (tailLoop p h k arr) \<subseteq> set arr \<union> {m. js_ge m (Fin 0) \<and> js_le m (Fin (poolLen p))}"
proof (induction p h k arr rule: tailLoop.induct)
  case (1 p h k arr)
  show ?case
  proof (cases "k < tailLen p")
    case True
    then show ?thesis
      using "1.IH" [OF True refl refl]
      by (subst tailLoop.simps) (auto simp add: Let_def split: if_splits)
  next
    case False
    then show ?thesis
      by (subst tailLoop.simps) simp
  qed
qed

lemma tailLoop_length:
  "length (tailLoop p h k arr) \<le> length arr + nat (tailLen p - k)"
proof (induction p h k arr rule: tailLoop.induct)
  case (1 p h k arr)
  show ?case
  proof (cases "k < tailLen p")
    case True
    have "nat (tailLen p - k) = Suc (nat (tailLen p - (k + 1)))"
      using True by simp
    then show ?thesis
      using "1.IH" [OF True refl refl]
      by (subst tailLoop.simps) (auto simp add: Let_def split: if_splits)
  next
    case False
    then show ?thesis
      by (subst tailLoop.simps) simp
  qed
qed

lemma tailMeters_example:
  "tailMeters \<lparr>poolLen = 50, secPer50 = 50, mode = Loop, turnDwell = 0,
      ledsPerM = 60, tailLen = 3\<rparr> 10 = [Fin 10, Fin (599 / 60), Fin (299 / 30)]"
  by (simp add: tailMeters_def headIndex_def tailLoop.simps js_ge_def timeToMeters_def
      cycleT_def travelT_def secPerM_def cyclePos_def cycleIndex_def timeInCycle_def
      js_min_def js_max_def)

section \<open>The claims\<close>

text \<open>
  C4, as stated, for either mode: with a dwell \<open>d > 0\<close> the position is 0 whenever
  \<open>timeInCycle p t < d\<close>. In PingPong mode this fails on an odd cycle: with
  \<open>poolLen = 50\<close>, \<open>secPer50 = 50\<close>, \<open>d = 1\<close> and \<open>t = 52.5\<close> the cycle index is 1, the
  time in the cycle is 0.5, and the position is 50.
\<close>

theorem dwell_holds_counterexample:
  "(0::real) < turnDwell \<lparr>poolLen = 50, secPer50 = 50, mode = PingPong, turnDwell = 1,
      ledsPerM = 60, tailLen = 3\<rparr>
   \<and> (0::real) \<le> 52.5
   \<and> timeInCycle \<lparr>poolLen = 50, secPer50 = 50, mode = PingPong, turnDwell = 1,
      ledsPerM = 60, tailLen = 3\<rparr> 52.5
      < turnDwell \<lparr>poolLen = 50, secPer50 = 50, mode = PingPong, turnDwell = 1,
      ledsPerM = 60, tailLen = 3\<rparr>
   \<and> timeToMeters \<lparr>poolLen = 50, secPer50 = 50, mode = PingPong, turnDwell = 1,
      ledsPerM = 60, tailLen = 3\<rparr> 52.5 = Fin 50
   \<and> timeToMeters \<lparr>poolLen = 50, secPer50 = 50, mode = PingPong, turnDwell = 1,
      ledsPerM = 60, tailLen = 3\<rparr> 52.5 \<noteq> Fin 0"
  by (simp add: timeToMeters_def cycleT_def travelT_def secPerM_def cyclePos_def
      cycleIndex_def timeInCycle_def js_min_def js_max_def signed_modulo_int_def)

text \<open>
  C4, amended. For a dwell \<open>d > 0\<close>, every \<open>t \<ge> 0\<close>, a positive pool length and a
  pace that is not negative, in Loop mode or on a cycle of even index: the position is 0
  whenever \<open>timeInCycle p t < d\<close>, and is \<open>poolLen\<close> whenever \<open>timeInCycle p t\<close> lies in
  the open interval from \<open>travelT p + d\<close> to \<open>cycleT p\<close>.
\<close>

theorem dwell_holds_unreflected:
  assumes "0 < turnDwell p" and "0 \<le> t"
    and "0 < poolLen p" and "0 \<le> secPer50 p"
    and "mode p = Loop \<or> even (cycleIndex p t)"
  shows "(timeInCycle p t < turnDwell p \<longrightarrow> timeToMeters p t = Fin 0)
      \<and> (travelT p + turnDwell p < timeInCycle p t \<and> timeInCycle p t < cycleT p
           \<longrightarrow> timeToMeters p t = Fin (poolLen p))"
proof -
  have p0: "0 \<le> poolLen p" using assms(3) by simp
  have c: "cycleT p \<noteq> 0"
    using cycleT_pos_dwell [OF p0 assms(4,1)] by simp
  have tr: "0 \<le> travelT p"
    using p0 assms(4) by (rule travelT_nonneg)
  have fw: "\<not> (mode p = PingPong \<and> cycleIndex p t smod 2 = 1)"
    using assms(5) even_smod_2 [of "cycleIndex p t"] by auto
  have "timeToMeters p t = Fin 0" if "timeInCycle p t < turnDwell p"
    using c fw cyclePos_start [OF that] p0 by (intro timeToMeters_forward) simp_all
  moreover have "timeToMeters p t = Fin (poolLen p)"
    if "travelT p + turnDwell p < timeInCycle p t"
    using c fw cyclePos_end [OF tr that] p0 by (intro timeToMeters_forward) simp_all
  ultimately show ?thesis by blast
qed

theorem dwell_holds_unreflected_witness:
  "(0::real) < 1 \<and> (0::real) \<le> 52.5 \<and> (0::real) \<le> 51.5 \<and> (0::real) < 50 \<and> (0::real) \<le> 50
   \<and> Loop = Loop
   \<and> timeInCycle \<lparr>poolLen = 50, secPer50 = 50, mode = Loop, turnDwell = 1,
      ledsPerM = 60, tailLen = 3\<rparr> 52.5 < 1
   \<and> timeToMeters \<lparr>poolLen = 50, secPer50 = 50, mode = Loop, turnDwell = 1,
      ledsPerM = 60, tailLen = 3\<rparr> 52.5 = Fin 0
   \<and> travelT \<lparr>poolLen = 50, secPer50 = 50, mode = PingPong, turnDwell = 1,
      ledsPerM = 60, tailLen = 3\<rparr> + 1
      < timeInCycle \<lparr>poolLen = 50, secPer50 = 50, mode = PingPong, turnDwell = 1,
      ledsPerM = 60, tailLen = 3\<rparr> 51.5
   \<and> timeInCycle \<lparr>poolLen = 50, secPer50 = 50, mode = PingPong, turnDwell = 1,
      ledsPerM = 60, tailLen = 3\<rparr> 51.5
      < cycleT \<lparr>poolLen = 50, secPer50 = 50, mode = PingPong, turnDwell = 1,
      ledsPerM = 60, tailLen = 3\<rparr>
   \<and> even (cycleIndex \<lparr>poolLen = 50, secPer50 = 50, mode = PingPong, turnDwell = 1,
      ledsPerM = 60, tailLen = 3\<rparr> 51.5)
   \<and> timeToMeters \<lparr>poolLen = 50, secPer50 = 50, mode = PingPong, turnDwell = 1,
      ledsPerM = 60, tailLen = 3\<rparr> 51.5 = Fin 50"
  using dwell_holds_unreflected [of "\<lparr>poolLen = 50, secPer50 = 50, mode = Loop, turnDwell = 1,
      ledsPerM = 60, tailLen = 3\<rparr>" "52.5"]
    dwell_holds_unreflected [of "\<lparr>poolLen = 50, secPer50 = 50, mode = PingPong, turnDwell = 1,
      ledsPerM = 60, tailLen = 3\<rparr>" "51.5"]
  by (simp add: cycleT_def travelT_def secPerM_def cycleIndex_def timeInCycle_def)

text \<open>
  C6. The example scenarios. With \<open>poolLen = 50\<close>, \<open>secPer50 = 50\<close>, no dwell, in Loop
  mode the positions at 0, 25, 50 and 49.999 are 0, 25, 0 and 49.999; in PingPong mode
  the positions at 50, 75 and 100 are 50, 25 and 0; with a dwell of one second the
  positions at 0.5 and 1.5 are 0 and 0.5, in either mode.
\<close>

theorem example_scenarios:
  "timeToMeters \<lparr>poolLen = 50, secPer50 = 50, mode = Loop, turnDwell = 0,
      ledsPerM = l, tailLen = k\<rparr> 0 = Fin 0
   \<and> timeToMeters \<lparr>poolLen = 50, secPer50 = 50, mode = Loop, turnDwell = 0,
      ledsPerM = l, tailLen = k\<rparr> 25 = Fin 25
   \<and> timeToMeters \<lparr>poolLen = 50, secPer50 = 50, mode = Loop, turnDwell = 0,
      ledsPerM = l, tailLen = k\<rparr> 50 = Fin 0
   \<and> timeToMeters \<lparr>poolLen = 50, secPer50 = 50, mode = Loop, turnDwell = 0,
      ledsPerM = l, tailLen = k\<rparr> 49.999 = Fin 49.999
   \<and> timeToMeters \<lparr>poolLen = 50, secPer50 = 50, mode = PingPong, turnDwell = 0,
      ledsPerM = l, tailLen = k\<rparr> 50 = Fin 50
   \<and> timeToMeters \<lparr>poolLen = 50, secPer50 = 50, mode = PingPong, turnDwell = 0,
      ledsPerM = l, tailLen = k\<rparr> 75 = Fin 25
   \<and> timeToMeters \<lparr>poolLen = 50, secPer50 = 50, mode = PingPong, turnDwell = 0,
      ledsPerM = l, tailLen = k\<rparr> 100 = Fin 0
   \<and> timeToMeters \<lparr>poolLen = 50, secPer50 = 50, mode = m, turnDwell = 1,
      ledsPerM = l, tailLen = k\<rparr> 0.5 = Fin 0
   \<and> timeToMeters \<lparr>poolLen = 50, secPer50 = 50, mode = m, turnDwell = 1,
      ledsPerM = l, tailLen = k\<rparr> 1.5 = Fin 0.5"
  by (simp add: timeToMeters_def cycleT_def travelT_def secPerM_def cyclePos_def
      cycleIndex_def timeInCycle_def js_min_def js_max_def signed_modulo_int_def)

text \<open>
  C7. The claim: for every time and all parameter values, zero pace included, the
  function returns a position, the edge cases being absorbed by the guard and the clamp.
  The guard \<^verbatim>\<open>cycleT === 0\<close> protects the division \<^verbatim>\<open>t / cycleT\<close> only. At zero pace
  with a dwell of one second the cycle time is 2, so the guard does not fire; at
  \<open>t = 1\<close> the time in the cycle is 1, neither dwell branch is taken, the moving branch
  divides 0 by the zero \<^verbatim>\<open>secPerM\<close>, and the clamp returns the \<^verbatim>\<open>NaN\<close> unchanged.
\<close>

theorem timeToMeters_zero_pace_NaN:
  "0 \<le> (1::real)
   \<and> secPerM \<lparr>poolLen = 50, secPer50 = 0, mode = Loop, turnDwell = 1,
      ledsPerM = 60, tailLen = 3\<rparr> = 0
   \<and> cycleT \<lparr>poolLen = 50, secPer50 = 0, mode = Loop, turnDwell = 1,
      ledsPerM = 60, tailLen = 3\<rparr> = 2
   \<and> cycleIndex \<lparr>poolLen = 50, secPer50 = 0, mode = Loop, turnDwell = 1,
      ledsPerM = 60, tailLen = 3\<rparr> 1 = 0
   \<and> timeInCycle \<lparr>poolLen = 50, secPer50 = 0, mode = Loop, turnDwell = 1,
      ledsPerM = 60, tailLen = 3\<rparr> 1 = 1
   \<and> cyclePos \<lparr>poolLen = 50, secPer50 = 0, mode = Loop, turnDwell = 1,
      ledsPerM = 60, tailLen = 3\<rparr> 1 = NaN
   \<and> timeToMeters \<lparr>poolLen = 50, secPer50 = 0, mode = Loop, turnDwell = 1,
      ledsPerM = 60, tailLen = 3\<rparr> 1 = NaN"
  by (simp add: timeToMeters_def cycleT_def travelT_def secPerM_def cyclePos_def
      cycleIndex_def timeInCycle_def js_min_def js_max_def)

text \<open>
  C8. Every element of the tail sequence \<open>tailMeters p t\<close> is a finite number within
  \<open>[0, poolLen]\<close>, and the sequence has at most \<open>tailLen\<close> elements (for a tail length
  that is not negative; valid parameters and \<open>t \<ge> 0\<close> are not needed).
\<close>

theorem tail_containment:
  assumes "0 \<le> tailLen p"
  shows "(\<forall>m \<in> set (tailMeters p t). \<exists>x. m = Fin x \<and> 0 \<le> x \<and> x \<le> poolLen p)
      \<and> int (length (tailMeters p t)) \<le> tailLen p"
proof -
  have "\<exists>x. m = Fin x \<and> 0 \<le> x \<and> x \<le> poolLen p" if "m \<in> set (tailMeters p t)" for m
  proof -
    have "js_ge m (Fin 0) \<and> js_le m (Fin (poolLen p))"
      using that tailLoop_set [of p "headIndex p t" 0 "[]"] by (auto simp add: tailMeters_def)
    then show ?thesis
      using in_range_Fin by blast
  qed
  moreover have "int (length (tailMeters p t)) \<le> tailLen p"
    using tailLoop_length [of p "headIndex p t" 0 "[]"] assms by (simp add: tailMeters_def)
  ultimately show ?thesis by blast
qed

theorem tail_containment_witness:
  "(0::int) \<le> 3
   \<and> Fin (599 / 60) \<in> set (tailMeters \<lparr>poolLen = 50, secPer50 = 50, mode = Loop, turnDwell = 0,
      ledsPerM = 60, tailLen = 3\<rparr> 10)
   \<and> (\<exists>x. Fin (599 / 60) = Fin x \<and> 0 \<le> x \<and> x \<le> (50::real))
   \<and> int (length (tailMeters \<lparr>poolLen = 50, secPer50 = 50, mode = Loop, turnDwell = 0,
      ledsPerM = 60, tailLen = 3\<rparr> 10)) \<le> 3"
proof -
  let ?p = "\<lparr>poolLen = 50, secPer50 = 50, mode = Loop, turnDwell = 0,
      ledsPerM = 60, tailLen = 3\<rparr>"
  have h: "0 \<le> tailLen ?p" by simp
  have m: "Fin (599 / 60) \<in> set (tailMeters ?p 10)"
    by (simp add: tailMeters_example)
  from tail_containment [OF h, of 10] m
  have "\<exists>x. Fin (599 / 60) = Fin x \<and> 0 \<le> x \<and> x \<le> poolLen ?p"
    by blast
  moreover from tail_containment [OF h, of 10]
  have "int (length (tailMeters ?p 10)) \<le> tailLen ?p"
    by blast
  ultimately show ?thesis
    using m by simp
qed

text \<open>
  C9. The marker sequence \<open>markerMs p\<close> is a subsequence of 15, 25, 35, 50 in that
  order, its elements are exactly the values of that set that are at most \<open>poolLen\<close>,
  and it is the same for all controls of the same pool length.
\<close>

theorem markerMs_canonical:
  "subseq (markerMs p) [15, 25, 35, 50]
   \<and> set (markerMs p) = {m \<in> {15, 25, 35, 50}. m \<le> poolLen p}
   \<and> (poolLen q = poolLen p \<longrightarrow> markerMs q = markerMs p)"
proof -
  have "subseq (markerMs p) [15, 25, 35, 50]"
    unfolding markerMs_def by (rule subseq_filter_left)
  moreover have "set (markerMs p) = {m \<in> {15, 25, 35, 50}. m \<le> poolLen p}"
    by (auto simp add: markerMs_def)
  moreover have "markerMs q = markerMs p" if "poolLen q = poolLen p"
    using that by (simp add: markerMs_def)
  ultimately show ?thesis by blast
qed

theorem markerMs_canonical_witness:
  "poolLen \<lparr>poolLen = 25, secPer50 = 40, mode = PingPong, turnDwell = 2, ledsPerM = 30, tailLen = 5\<rparr>
     = poolLen \<lparr>poolLen = 25, secPer50 = 35, mode = Loop, turnDwell = 0, ledsPerM = 60, tailLen = 3\<rparr>
   \<and> subseq (markerMs \<lparr>poolLen = 25, secPer50 = 35, mode = Loop, turnDwell = 0, ledsPerM = 60, tailLen = 3\<rparr>) [15, 25, 35, 50]
   \<and> set (markerMs \<lparr>poolLen = 25, secPer50 = 35, mode = Loop, turnDwell = 0, ledsPerM = 60, tailLen = 3\<rparr>)
       = {m \<in> {15, 25, 35, 50}. m \<le> 25}
   \<and> markerMs \<lparr>poolLen = 25, secPer50 = 40, mode = PingPong, turnDwell = 2, ledsPerM = 30, tailLen = 5\<rparr>
     = markerMs \<lparr>poolLen = 25, secPer50 = 35, mode = Loop, turnDwell = 0, ledsPerM = 60, tailLen = 3\<rparr>"
  using markerMs_canonical [of "\<lparr>poolLen = 25, secPer50 = 35, mode = Loop, turnDwell = 0, ledsPerM = 60, tailLen = 3\<rparr>"
      "\<lparr>poolLen = 25, secPer50 = 40, mode = PingPong, turnDwell = 2, ledsPerM = 30, tailLen = 5\<rparr>"]
  by simp

text \<open>
  C10, as stated, for every pace: on an odd cycle of PingPong mode with a dwell
  \<open>d > 0\<close> the position is 0 whenever \<open>timeInCycle p t > travelT p + d\<close>. This fails at
  a negative pace, where the two dwell windows overlap and the first branch wins: with
  \<open>poolLen = 50\<close>, \<open>secPer50 = -50\<close>, \<open>d = 30\<close> and \<open>t = 15\<close> the cycle time is 10, the
  cycle index is 1, the time in the cycle is 5, above \<open>travelT p + d = -20\<close> and below
  \<open>d\<close>, and the position is 50.
\<close>

theorem pingpong_odd_dwell_counterexample:
  "mode \<lparr>poolLen = 50, secPer50 = - 50, mode = PingPong, turnDwell = 30,
      ledsPerM = 60, tailLen = 3\<rparr> = PingPong
   \<and> 0 < turnDwell \<lparr>poolLen = 50, secPer50 = - 50, mode = PingPong, turnDwell = 30,
      ledsPerM = 60, tailLen = 3\<rparr>
   \<and> (0::real) \<le> 15
   \<and> cycleT \<lparr>poolLen = 50, secPer50 = - 50, mode = PingPong, turnDwell = 30,
      ledsPerM = 60, tailLen = 3\<rparr> = 10
   \<and> cycleIndex \<lparr>poolLen = 50, secPer50 = - 50, mode = PingPong, turnDwell = 30,
      ledsPerM = 60, tailLen = 3\<rparr> 15 = 1
   \<and> odd (cycleIndex \<lparr>poolLen = 50, secPer50 = - 50, mode = PingPong, turnDwell = 30,
      ledsPerM = 60, tailLen = 3\<rparr> 15)
   \<and> timeInCycle \<lparr>poolLen = 50, secPer50 = - 50, mode = PingPong, turnDwell = 30,
      ledsPerM = 60, tailLen = 3\<rparr> 15 = 5
   \<and> travelT \<lparr>poolLen = 50, secPer50 = - 50, mode = PingPong, turnDwell = 30,
      ledsPerM = 60, tailLen = 3\<rparr> + turnDwell \<lparr>poolLen = 50, secPer50 = - 50, mode = PingPong, turnDwell = 30,
      ledsPerM = 60, tailLen = 3\<rparr> = - 20
   \<and> timeInCycle \<lparr>poolLen = 50, secPer50 = - 50, mode = PingPong, turnDwell = 30,
      ledsPerM = 60, tailLen = 3\<rparr> 15 > travelT \<lparr>poolLen = 50, secPer50 = - 50, mode = PingPong, turnDwell = 30,
      ledsPerM = 60, tailLen = 3\<rparr> + turnDwell \<lparr>poolLen = 50, secPer50 = - 50, mode = PingPong, turnDwell = 30,
      ledsPerM = 60, tailLen = 3\<rparr>
   \<and> timeToMeters \<lparr>poolLen = 50, secPer50 = - 50, mode = PingPong, turnDwell = 30,
      ledsPerM = 60, tailLen = 3\<rparr> 15 = Fin 50
   \<and> timeToMeters \<lparr>poolLen = 50, secPer50 = - 50, mode = PingPong, turnDwell = 30,
      ledsPerM = 60, tailLen = 3\<rparr> 15 \<noteq> Fin 0"
  by (simp add: timeToMeters_def cycleT_def travelT_def secPerM_def cyclePos_def
      cycleIndex_def timeInCycle_def js_min_def js_max_def signed_modulo_int_def)

text \<open>
  C10, amended. In PingPong mode with a dwell \<open>d > 0\<close>, a positive pool length and a pace that
  is not negative, for every \<open>t \<ge> 0\<close> whose cycle index is odd: the position is
  \<open>poolLen\<close> during the initial dwell (\<open>timeInCycle p t < d\<close>) and 0 during the final
  dwell (\<open>timeInCycle p t > travelT p + d\<close>).
\<close>

theorem pingpong_odd_dwell:
  assumes "mode p = PingPong" and "0 < turnDwell p" and "0 \<le> t"
    and "0 < poolLen p" and "0 \<le> secPer50 p"
    and "odd (cycleIndex p t)"
  shows "(timeInCycle p t < turnDwell p \<longrightarrow> timeToMeters p t = Fin (poolLen p))
      \<and> (travelT p + turnDwell p < timeInCycle p t \<longrightarrow> timeToMeters p t = Fin 0)"
proof -
  have p0: "0 \<le> poolLen p" using assms(4) by simp
  have pos: "0 < cycleT p"
    using p0 assms(5,2) by (rule cycleT_pos_dwell)
  then have c: "cycleT p \<noteq> 0" by simp
  have tr: "0 \<le> travelT p"
    using p0 assms(5) by (rule travelT_nonneg)
  have "0 \<le> cycleIndex p t"
    using pos assms(3) by (rule cycleIndex_nonneg)
  then have odd1: "cycleIndex p t smod 2 = 1"
    using assms(6) by (simp add: smod_2_eq_1_iff)
  have "timeToMeters p t = Fin (poolLen p)" if "timeInCycle p t < turnDwell p"
    using timeToMeters_reflected [OF c assms(1) odd1 cyclePos_start [OF that]] p0 by simp
  moreover have "timeToMeters p t = Fin 0" if "travelT p + turnDwell p < timeInCycle p t"
    using timeToMeters_reflected [OF c assms(1) odd1 cyclePos_end [OF tr that]] p0 by simp
  ultimately show ?thesis by blast
qed

theorem pingpong_odd_dwell_witness:
  "PingPong = PingPong \<and> (0::real) < 1 \<and> (0::real) \<le> 52.5 \<and> (0::real) < 50 \<and> (0::real) \<le> 50
   \<and> odd (cycleIndex \<lparr>poolLen = 50, secPer50 = 50, mode = PingPong, turnDwell = 1,
      ledsPerM = 60, tailLen = 3\<rparr> 52.5)
   \<and> timeInCycle \<lparr>poolLen = 50, secPer50 = 50, mode = PingPong, turnDwell = 1,
      ledsPerM = 60, tailLen = 3\<rparr> 52.5 < 1
   \<and> timeToMeters \<lparr>poolLen = 50, secPer50 = 50, mode = PingPong, turnDwell = 1,
      ledsPerM = 60, tailLen = 3\<rparr> 52.5 = Fin 50
   \<and> odd (cycleIndex \<lparr>poolLen = 50, secPer50 = 50, mode = PingPong, turnDwell = 1,
      ledsPerM = 60, tailLen = 3\<rparr> 103.5)
   \<and> travelT \<lparr>poolLen = 50, secPer50 = 50, mode = PingPong, turnDwell = 1,
      ledsPerM = 60, tailLen = 3\<rparr> + 1
      < timeInCycle \<lparr>poolLen = 50, secPer50 = 50, mode = PingPong, turnDwell = 1,
      ledsPerM = 60, tailLen = 3\<rparr> 103.5
   \<and> timeToMeters \<lparr>poolLen = 50, secPer50 = 50, mode = PingPong, turnDwell = 1,
      ledsPerM = 60, tailLen = 3\<rparr> 103.5 = Fin 0"
  using pingpong_odd_dwell [of "\<lparr>poolLen = 50, secPer50 = 50, mode = PingPong, turnDwell = 1,
      ledsPerM = 60, tailLen = 3\<rparr>" "52.5"]
    pingpong_odd_dwell [of "\<lparr>poolLen = 50, secPer50 = 50, mode = PingPong, turnDwell = 1,
      ledsPerM = 60, tailLen = 3\<rparr>" "103.5"]
  by (simp add: cycleT_def travelT_def secPerM_def cycleIndex_def timeInCycle_def)

end
